theory Spec2Isabelle
  imports Complex_Main "HOL-Library.Word" "HOL-Library.Multiset"
begin

unbundle bit_operations_syntax

section \<open>Values, bytes and errors\<close>

text \<open>
  The aggregate functions of \<^verbatim>\<open>be/src/exprs/aggregate-functions.cc\<close> work on the UDF value
  structs (\<^verbatim>\<open>BigIntVal\<close>, \<^verbatim>\<open>DecimalVal\<close>, \<^verbatim>\<open>StringVal\<close>, ...): a null flag and a payload.
  A \<^verbatim>\<open>StringVal\<close> is modelled by its contents: the \<^verbatim>\<open>len\<close> bytes at \<^verbatim>\<open>ptr\<close>.
  A \<^verbatim>\<open>DecimalVal\<close> is a union of \<^verbatim>\<open>val4\<close>, \<^verbatim>\<open>val8\<close> and \<^verbatim>\<open>val16\<close>; it is modelled by
  its 16-byte image, of which the narrower members are the low bytes (little endian).
\<close>

type_synonym byte = "8 word"

record 'a AnyVal =
  is_null :: bool
  val :: 'a

type_synonym BigIntVal = "64 word AnyVal"
type_synonym DecimalVal = "128 word AnyVal"
type_synonym StringVal = "byte list AnyVal"
type_synonym TimestampVal = "(32 word \<times> 64 word) AnyVal"

definition val4 :: "DecimalVal \<Rightarrow> 32 word" where
  "val4 d = ucast (val d)"

definition val8 :: "DecimalVal \<Rightarrow> 64 word" where
  "val8 d = ucast (val d)"

definition val16 :: "DecimalVal \<Rightarrow> 128 word" where
  "val16 d = val d"

definition StringVal_null :: StringVal where
  "StringVal_null = \<lparr>is_null = True, val = []\<rparr>"

definition bytes_of :: "string \<Rightarrow> byte list" where
  "bytes_of s = map of_char s"

text \<open>
  What the source leaves undefined is an error value of the model: the result of
  \<^verbatim>\<open>__builtin_ctz(0)\<close>, a shift of a 32-bit integer by 32 or more, and an access outside
  a buffer.
\<close>

datatype error = Ctz_undefined | Shift_out_of_range | Out_of_bounds

definition then_do :: "error + 'a \<Rightarrow> ('a \<Rightarrow> error + 'b) \<Rightarrow> error + 'b" where
  "then_do r f = (case r of Inl e \<Rightarrow> Inl e | Inr x \<Rightarrow> f x)"

text \<open>An \<^verbatim>\<open>int\<close> or \<^verbatim>\<open>uint32_t\<close> read from, or written to, four bytes of a buffer.\<close>

definition store_int :: "32 word \<Rightarrow> byte list" where
  "store_int w = [ucast w, ucast (drop_bit 8 w), ucast (drop_bit 16 w), ucast (drop_bit 24 w)]"

definition load_int :: "byte list \<Rightarrow> 32 word" where
  "load_int bs = ucast (bs ! 0) OR push_bit 8 (ucast (bs ! 1)) OR push_bit 16 (ucast (bs ! 2))
     OR push_bit 24 (ucast (bs ! 3))"

text \<open>
  \<^verbatim>\<open>__builtin_ctz\<close> and \<^verbatim>\<open>__builtin_ctzl\<close>: the number of trailing zero bits; the result is
  undefined for 0.
\<close>

fun ctz_nat :: "nat \<Rightarrow> nat" where
  "ctz_nat n = (if n = 0 \<or> odd n then 0 else Suc (ctz_nat (n div 2)))"

definition builtin_ctz :: "'a::len word \<Rightarrow> nat option" where
  "builtin_ctz w = (if w = 0 then None else Some (ctz_nat (unat w)))"

text \<open>
  Floating point is outside the embedding: a \<^verbatim>\<open>double\<close> is a value of a type parameter
  \<open>'d\<close>, and the arithmetic the source performs on it is a parameter.
\<close>

record 'd fp_ops =
  fp_zero :: 'd
  fp_add :: "'d \<Rightarrow> 'd \<Rightarrow> 'd"
  fp_sub :: "'d \<Rightarrow> 'd \<Rightarrow> 'd"
  fp_mul :: "'d \<Rightarrow> 'd \<Rightarrow> 'd"
  fp_div :: "'d \<Rightarrow> 'd \<Rightarrow> 'd"
  fp_of_int64 :: "64 word \<Rightarrow> 'd"
  fp_to_int64 :: "'d \<Rightarrow> 64 word"

section \<open>Count\<close>


definition InitZero :: "'a \<Rightarrow> 'a AnyVal \<Rightarrow> 'a AnyVal" where
  "InitZero zero dst = dst\<lparr>is_null := False, val := zero\<rparr>"

definition CountUpdate :: "'a AnyVal \<Rightarrow> BigIntVal \<Rightarrow> BigIntVal" where
  "CountUpdate src dst = (if \<not> is_null src then dst\<lparr>val := val dst + 1\<rparr> else dst)"

definition CountStarUpdate :: "BigIntVal \<Rightarrow> BigIntVal" where
  "CountStarUpdate dst = dst\<lparr>val := val dst + 1\<rparr>"

definition CountMerge :: "BigIntVal \<Rightarrow> BigIntVal \<Rightarrow> BigIntVal" where
  "CountMerge src dst = dst\<lparr>val := val dst + val src\<rparr>"

section \<open>Averages\<close>

record 'd AvgState =
  avg_sum :: 'd
  avg_count :: "64 word"


text \<open>\<open>to_double\<close> is the conversion of \<^verbatim>\<open>src.val\<close> to \<^verbatim>\<open>double\<close> in \<^verbatim>\<open>avg->sum += src.val\<close>.\<close>

definition AvgUpdate :: "'d fp_ops \<Rightarrow> ('a \<Rightarrow> 'd) \<Rightarrow> 'a AnyVal \<Rightarrow> 'd AvgState \<Rightarrow> 'd AvgState" where
  "AvgUpdate fp to_double src avg =
     (if is_null src then avg
      else avg\<lparr>avg_sum := fp_add fp (avg_sum avg) (to_double (val src)),
               avg_count := avg_count avg + 1\<rparr>)"


text \<open>\<open>FromTimestampVal\<close> is the value library's conversion of a timestamp to \<^verbatim>\<open>double\<close>.\<close>

definition TimestampAvgUpdate ::
  "'d fp_ops \<Rightarrow> (TimestampVal \<Rightarrow> 'd) \<Rightarrow> TimestampVal \<Rightarrow> 'd AvgState \<Rightarrow> 'd AvgState" where
  "TimestampAvgUpdate fp FromTimestampVal src avg =
     (if is_null src then avg
      else avg\<lparr>avg_sum := fp_add fp (avg_sum avg) (FromTimestampVal src),
               avg_count := avg_count avg + 1\<rparr>)"

record DecimalAvgState =
  dec_sum :: "128 word"
  dec_count :: "64 word"

definition DecimalAvgInit :: DecimalAvgState where
  "DecimalAvgInit = \<lparr>dec_sum = 0, dec_count = 0\<rparr>"

text \<open>
  Modelled from the spec: \<^verbatim>\<open>ColumnType::GetByteSize\<close> of a decimal type is not in this file;
  the physical width is derived from the declared precision, at most 9 digits in 4 bytes,
  at most 19 in 8 bytes, else 16 bytes.
\<close>

definition GetByteSize :: "nat \<Rightarrow> nat" where
  "GetByteSize precision = (if precision \<le> 9 then 4 else if precision \<le> 19 then 8 else 16)"

text \<open>
  \<open>precision\<close> is the declared precision of argument 0 (\<^verbatim>\<open>ctx->GetArgType(0)\<close>). The narrower
  members are signed and widen to 128 bits by sign extension. The \<^verbatim>\<open>default\<close> branch of the
  switch only holds a debug assertion.
\<close>

definition DecimalAvgUpdate :: "nat \<Rightarrow> DecimalVal \<Rightarrow> DecimalAvgState \<Rightarrow> DecimalAvgState" where
  "DecimalAvgUpdate precision src avg =
     (if is_null src then avg
      else
        let avg1 =
          (if GetByteSize precision = 4 then avg\<lparr>dec_sum := dec_sum avg + scast (val4 src)\<rparr>
           else if GetByteSize precision = 8 then avg\<lparr>dec_sum := dec_sum avg + scast (val8 src)\<rparr>
           else if GetByteSize precision = 16 then avg\<lparr>dec_sum := dec_sum avg + scast (val4 src)\<rparr>
           else avg)
        in avg1\<lparr>dec_count := dec_count avg1 + 1\<rparr>)"


section \<open>Sum, Min and Max\<close>

text \<open>
  The template \<^verbatim>\<open>Sum<SRC_VAL, DST_VAL>\<close>: \<open>add\<close> is \<^verbatim>\<open>dst->val += src.val\<close> at the two
  value types (a wrapping 64-bit addition of the sign-extended source for the integer
  instances, a floating-point addition for the others) and \<open>zero\<close> is the 0 of the
  destination type.
\<close>

definition Sum :: "('b \<Rightarrow> 'a \<Rightarrow> 'b) \<Rightarrow> 'b \<Rightarrow> 'a AnyVal \<Rightarrow> 'b AnyVal \<Rightarrow> 'b AnyVal" where
  "Sum add zero src dst =
     (if is_null src then dst
      else
        let dst1 = (if is_null dst then InitZero zero dst else dst)
        in dst1\<lparr>val := add (val dst1) (val src)\<rparr>)"

definition Sum_int :: "'a::len word AnyVal \<Rightarrow> BigIntVal \<Rightarrow> BigIntVal" where
  "Sum_int = Sum (\<lambda>d s. d + scast s) 0"

definition Sum_double :: "'d fp_ops \<Rightarrow> ('a \<Rightarrow> 'd) \<Rightarrow> 'a AnyVal \<Rightarrow> 'd AnyVal \<Rightarrow> 'd AnyVal" where
  "Sum_double fp to_double = Sum (\<lambda>d s. fp_add fp d (to_double s)) (fp_zero fp)"

definition SumUpdate :: "nat \<Rightarrow> DecimalVal \<Rightarrow> DecimalVal \<Rightarrow> DecimalVal" where
  "SumUpdate precision src dst =
     (if is_null src then dst
      else
        let dst1 = (if is_null dst then InitZero 0 dst else dst)
        in if precision \<le> 9 then dst1\<lparr>val := val16 dst1 + scast (val4 src)\<rparr>
           else if precision \<le> 19 then dst1\<lparr>val := val16 dst1 + scast (val8 src)\<rparr>
           else dst1\<lparr>val := val16 dst1 + val16 src\<rparr>)"


text \<open>The templates \<^verbatim>\<open>Min<T>\<close> and \<^verbatim>\<open>Max<T>\<close>; \<open>lt\<close> is \<^verbatim>\<open><\<close> of the value type.\<close>

definition Min_val :: "('a \<Rightarrow> 'a \<Rightarrow> bool) \<Rightarrow> 'a AnyVal \<Rightarrow> 'a AnyVal \<Rightarrow> 'a AnyVal" where
  "Min_val lt src dst =
     (if is_null src then dst
      else if is_null dst \<or> lt (val src) (val dst) then src else dst)"

definition Max_val :: "('a \<Rightarrow> 'a \<Rightarrow> bool) \<Rightarrow> 'a AnyVal \<Rightarrow> 'a AnyVal \<Rightarrow> 'a AnyVal" where
  "Max_val lt src dst =
     (if is_null src then dst
      else if is_null dst \<or> lt (val dst) (val src) then src else dst)"

definition InitNullString :: "StringVal \<Rightarrow> StringVal" where
  "InitNullString dst = \<lparr>is_null = True, val = []\<rparr>"

text \<open>
  The \<^verbatim>\<open>StringVal\<close> specialisations replace the destination by a fresh copy of the
  source's bytes; \<open>lt\<close> is \<^verbatim>\<open>StringValue::operator<\<close> of the value library.
\<close>

definition Min_StringVal :: "(byte list \<Rightarrow> byte list \<Rightarrow> bool) \<Rightarrow> StringVal \<Rightarrow> StringVal \<Rightarrow> StringVal" where
  "Min_StringVal lt src dst =
     (if is_null src then dst
      else if is_null dst \<or> lt (val src) (val dst) then \<lparr>is_null = False, val = val src\<rparr>
      else dst)"

definition Max_StringVal :: "(byte list \<Rightarrow> byte list \<Rightarrow> bool) \<Rightarrow> StringVal \<Rightarrow> StringVal \<Rightarrow> StringVal" where
  "Max_StringVal lt src dst =
     (if is_null src then dst
      else if is_null dst \<or> lt (val dst) (val src) then \<lparr>is_null = False, val = val src\<rparr>
      else dst)"

definition Min_DecimalVal :: "nat \<Rightarrow> DecimalVal \<Rightarrow> DecimalVal \<Rightarrow> DecimalVal" where
  "Min_DecimalVal precision src dst =
     (if is_null src then dst
      else if precision \<le> 9 then
        (if is_null dst \<or> val4 src <s val4 dst then src else dst)
      else if precision \<le> 19 then
        (if is_null dst \<or> val8 src <s val8 dst then src else dst)
      else
        (if is_null dst \<or> val16 src <s val16 dst then src else dst))"

definition Max_DecimalVal :: "nat \<Rightarrow> DecimalVal \<Rightarrow> DecimalVal \<Rightarrow> DecimalVal" where
  "Max_DecimalVal precision src dst =
     (if is_null src then dst
      else if precision \<le> 9 then
        (if is_null dst \<or> val4 dst <s val4 src then src else dst)
      else if precision \<le> 19 then
        (if is_null dst \<or> val8 dst <s val8 src then src else dst)
      else
        (if is_null dst \<or> val16 dst <s val16 src then src else dst))"

text \<open>\<open>lt\<close> is \<^verbatim>\<open>TimestampValue::operator<\<close> on the converted values.\<close>

definition Min_TimestampVal ::
  "(TimestampVal \<Rightarrow> TimestampVal \<Rightarrow> bool) \<Rightarrow> TimestampVal \<Rightarrow> TimestampVal \<Rightarrow> TimestampVal" where
  "Min_TimestampVal lt src dst =
     (if is_null src then dst
      else if is_null dst then src
      else if lt src dst then src else dst)"

definition Max_TimestampVal ::
  "(TimestampVal \<Rightarrow> TimestampVal \<Rightarrow> bool) \<Rightarrow> TimestampVal \<Rightarrow> TimestampVal \<Rightarrow> TimestampVal" where
  "Max_TimestampVal lt src dst =
     (if is_null src then dst
      else if is_null dst then src
      else if lt dst src then src else dst)"

section \<open>String concatenation\<close>

text \<open>
  The intermediate state is a buffer that starts with a header, an \<^verbatim>\<open>int\<close> holding the
  length of the first separator, followed by the accumulated string, which starts with
  that separator.
\<close>

definition DEFAULT_STRING_CONCAT_DELIM :: StringVal where
  "DEFAULT_STRING_CONCAT_DELIM = \<lparr>is_null = False, val = bytes_of '', ''\<rparr>"

definition header_len :: nat where
  "header_len = 4"

definition StringConcatUpdate :: "StringVal \<Rightarrow> StringVal \<Rightarrow> StringVal \<Rightarrow> StringVal" where
  "StringConcatUpdate src separator result =
     (if is_null src then result
      else
        let sep = (if is_null separator then DEFAULT_STRING_CONCAT_DELIM else separator);
            result1 =
              (if is_null result
               then \<lparr>is_null = False, val = store_int (word_of_nat (length (val sep)))\<rparr>
               else result)
        in result1\<lparr>val := val result1 @ val sep @ val src\<rparr>)"

definition StringConcatUpdate_default :: "StringVal \<Rightarrow> StringVal \<Rightarrow> StringVal" where
  "StringConcatUpdate_default src result =
     StringConcatUpdate src DEFAULT_STRING_CONCAT_DELIM result"

text \<open>
  The merge copies \<^verbatim>\<open>src.len - header_len\<close> bytes from behind the source's header; a source
  shorter than a header is outside what the code handles.
\<close>

definition StringConcatMerge :: "StringVal \<Rightarrow> StringVal \<Rightarrow> error + StringVal" where
  "StringConcatMerge src result =
     (if is_null src then Inr result
      else if length (val src) < header_len then Inl Out_of_bounds
      else
        let result1 =
              (if is_null result
               then \<lparr>is_null = False, val = store_int (load_int (val src))\<rparr>
               else result)
        in Inr (result1\<lparr>val := val result1 @ drop header_len (val src)\<rparr>))"

definition StringConcatFinalize :: "StringVal \<Rightarrow> error + StringVal" where
  "StringConcatFinalize src =
     (if is_null src then Inr src
      else if length (val src) < header_len then Inl Out_of_bounds
      else
        let sep_len = sint (load_int (val src))
        in if sep_len < 0 \<or> int (length (val src)) < int header_len + sep_len
           then Inl Out_of_bounds
           else Inr \<lparr>is_null = False, val = drop (header_len + nat sep_len) (val src)\<rparr>)"

section \<open>Probabilistic counting: PC and PCSA\<close>

definition NUM_PC_BITMAPS :: nat where
  "NUM_PC_BITMAPS = 64"

definition PC_BITMAP_LENGTH :: nat where
  "PC_BITMAP_LENGTH = 32"

definition PcInit :: "byte list" where
  "PcInit = replicate (NUM_PC_BITMAPS * PC_BITMAP_LENGTH div 8) 0"

text \<open>
  The state is a buffer of 256 bytes. \<^verbatim>\<open>int_bitmap[row_index]\<close> views it as an array of
  \<^verbatim>\<open>uint32_t\<close>: row \<open>r\<close> is the four bytes from offset \<open>4 * r\<close>.
\<close>

definition int_bitmap_get :: "byte list \<Rightarrow> nat \<Rightarrow> 32 word" where
  "int_bitmap_get bitmap row_index = load_int (take 4 (drop (4 * row_index) bitmap))"

definition int_bitmap_set :: "byte list \<Rightarrow> nat \<Rightarrow> 32 word \<Rightarrow> byte list" where
  "int_bitmap_set bitmap row_index w =
     take (4 * row_index) bitmap @ store_int w @ drop (4 * row_index + 4) bitmap"

definition SetDistinctEstimateBit :: "byte list \<Rightarrow> nat \<Rightarrow> nat \<Rightarrow> error + byte list" where
  "SetDistinctEstimateBit bitmap row_index bit_index =
     (if length bitmap < 4 * row_index + 4 then Inl Out_of_bounds
      else if 32 \<le> bit_index then Inl Shift_out_of_range
      else Inr (int_bitmap_set bitmap row_index
                  (int_bitmap_get bitmap row_index OR push_bit bit_index 1)))"

definition GetDistinctEstimateBit :: "byte list \<Rightarrow> nat \<Rightarrow> nat \<Rightarrow> error + bool" where
  "GetDistinctEstimateBit bitmap row_index bit_index =
     (if length bitmap < 4 * row_index + 4 then Inl Out_of_bounds
      else if 32 \<le> bit_index then Inl Shift_out_of_range
      else Inr (0 < (int_bitmap_get bitmap row_index AND push_bit bit_index 1)))"

text \<open>
  \<open>Hash\<close> is \<^verbatim>\<open>AnyValUtil::Hash(input, type, seed)\<close>, the 32-bit seeded hash of the value
  library. A bit index that is an undefined result of \<^verbatim>\<open>__builtin_ctz\<close> is \<open>None\<close>.
\<close>

definition PcUpdate ::
  "('a AnyVal \<Rightarrow> nat \<Rightarrow> 32 word) \<Rightarrow> 'a AnyVal \<Rightarrow> byte list \<Rightarrow> error + byte list" where
  "PcUpdate Hash input dst =
     (if is_null input then Inr dst
      else
        fold (\<lambda>i acc. then_do acc (\<lambda>d.
            let hash_value = Hash input i;
                bit_index0 = builtin_ctz hash_value;
                bit_index = (if hash_value = 0 then Some (PC_BITMAP_LENGTH - 1) else bit_index0)
            in case bit_index of
                 None \<Rightarrow> Inl Ctz_undefined
               | Some b \<Rightarrow> SetDistinctEstimateBit d i b))
          [0..<NUM_PC_BITMAPS] (Inr dst))"

definition PcsaUpdate ::
  "('a AnyVal \<Rightarrow> nat \<Rightarrow> 32 word) \<Rightarrow> 'a AnyVal \<Rightarrow> byte list \<Rightarrow> error + byte list" where
  "PcsaUpdate Hash input dst =
     (if is_null input then Inr dst
      else
        let hash_value = Hash input 0;
            row_index = unat (hash_value mod word_of_nat NUM_PC_BITMAPS);
            bit_index0 = builtin_ctz (hash_value div word_of_nat NUM_PC_BITMAPS);
            bit_index = (if hash_value = 0 then Some (PC_BITMAP_LENGTH - 1) else bit_index0)
        in case bit_index of
             None \<Rightarrow> Inl Ctz_undefined
           | Some b \<Rightarrow> SetDistinctEstimateBit dst row_index b)"

definition PcMerge :: "byte list \<Rightarrow> byte list \<Rightarrow> error + byte list" where
  "PcMerge src dst =
     (if length src < NUM_PC_BITMAPS * PC_BITMAP_LENGTH div 8
         \<or> length dst < NUM_PC_BITMAPS * PC_BITMAP_LENGTH div 8
      then Inl Out_of_bounds
      else Inr (fold (\<lambda>i d. d[i := d ! i OR src ! i])
                  [0..<NUM_PC_BITMAPS * PC_BITMAP_LENGTH div 8] dst))"

text \<open>
  The loop of \<^verbatim>\<open>DistinceEstimateFinalize\<close> that counts the leading ones of row \<open>i\<close>:
  \<^verbatim>\<open>while (GetDistinctEstimateBit(src.ptr, i, row_bit_count) && row_bit_count < PC_BITMAP_LENGTH)\<close>.
  The bit is read before the bound is tested.
\<close>

function row_bit_count_loop :: "byte list \<Rightarrow> nat \<Rightarrow> nat \<Rightarrow> error + nat" where
  "row_bit_count_loop src i row_bit_count =
     (case GetDistinctEstimateBit src i row_bit_count of
        Inl e \<Rightarrow> Inl e
      | Inr b \<Rightarrow>
          if b \<and> row_bit_count < PC_BITMAP_LENGTH
          then row_bit_count_loop src i (row_bit_count + 1)
          else Inr row_bit_count)"
  by pat_completeness auto
termination
  by (relation "measure (\<lambda>(src, i, row_bit_count). PC_BITMAP_LENGTH - row_bit_count)") auto

declare row_bit_count_loop.simps [simp del]

text \<open>
  \<open>estimate\<close> is the floating-point end of the function, \<^verbatim>\<open>pow(2, sum / 64.0) / PC_THETA\<close>,
  and \<open>zero\<close> the \<^verbatim>\<open>double\<close> 0 returned for an empty bitmap.
\<close>

definition DistinceEstimateFinalize :: "'d \<Rightarrow> (int \<Rightarrow> 'd) \<Rightarrow> byte list \<Rightarrow> error + 'd" where
  "DistinceEstimateFinalize zero estimate src =
     (if length src < NUM_PC_BITMAPS * PC_BITMAP_LENGTH div 8 then Inl Out_of_bounds
      else if list_all (\<lambda>b. b = 0) (take (NUM_PC_BITMAPS * PC_BITMAP_LENGTH div 8) src)
      then Inr zero
      else
        then_do
          (fold (\<lambda>i acc. then_do acc (\<lambda>sum.
               then_do (row_bit_count_loop src i 0) (\<lambda>row_bit_count.
                 Inr (sum + int row_bit_count))))
             [0..<NUM_PC_BITMAPS] (Inr 0))
          (\<lambda>sum. Inr (estimate sum)))"

section \<open>HyperLogLog\<close>

definition HLL_PRECISION :: nat where
  "HLL_PRECISION = 10"

definition HLL_LEN :: nat where
  "HLL_LEN = 1024"


text \<open>\<open>Hash64\<close> is \<^verbatim>\<open>AnyValUtil::Hash64\<close> with the seed \<^verbatim>\<open>HashUtil::FNV64_SEED\<close>.\<close>

definition HllUpdate :: "('a AnyVal \<Rightarrow> 64 word) \<Rightarrow> 'a AnyVal \<Rightarrow> byte list \<Rightarrow> error + byte list" where
  "HllUpdate Hash64 src dst =
     (if is_null src then Inr dst
      else
        let hash_value = Hash64 src
        in if hash_value \<noteq> 0 then
             let idx = unat (hash_value AND (word_of_nat HLL_LEN - 1))
             in case builtin_ctz (drop_bit HLL_PRECISION hash_value) of
                  None \<Rightarrow> Inl Ctz_undefined
                | Some n \<Rightarrow>
                    let first_one_bit = (word_of_nat (n + 1) :: byte)
                    in if length dst \<le> idx then Inl Out_of_bounds
                       else Inr (dst[idx := max (dst ! idx) first_one_bit])
           else Inr dst)"

definition HllMerge :: "byte list \<Rightarrow> byte list \<Rightarrow> error + byte list" where
  "HllMerge src dst =
     (if length dst < length src then Inl Out_of_bounds
      else Inr (fold (\<lambda>i d. d[i := max (d ! i) (src ! i)]) [0..<length src] dst))"

section \<open>Reservoir sampling\<close>

definition NUM_BUCKETS :: nat where
  "NUM_BUCKETS = 100"

definition NUM_SAMPLES_PER_BUCKET :: nat where
  "NUM_SAMPLES_PER_BUCKET = 200"

definition NUM_SAMPLES :: nat where
  "NUM_SAMPLES = NUM_BUCKETS * NUM_SAMPLES_PER_BUCKET"

definition MAX_STRING_SAMPLE_LEN :: nat where
  "MAX_STRING_SAMPLE_LEN = 10"

text \<open>
  A sample holds a value and a key. The key is a \<^verbatim>\<open>double\<close> that the functions modelled
  here only store and compare, never compute with; it is modelled by the rational number
  it denotes. For the \<^verbatim>\<open>StringVal\<close> specialisation the value is the \<^verbatim>\<open>len\<close> bytes kept of
  the string.
\<close>

record 'v ReservoirSample =
  sample_val :: 'v
  key :: rat

definition ReservoirSample_default :: "'v \<Rightarrow> 'v ReservoirSample" where
  "ReservoirSample_default v0 = \<lparr>sample_val = v0, key = - 1\<rparr>"

definition ReservoirSample_of :: "'v \<Rightarrow> 'v ReservoirSample" where
  "ReservoirSample_of v = \<lparr>sample_val = v, key = - 1\<rparr>"

definition ReservoirSample_of_StringVal :: "StringVal \<Rightarrow> byte list ReservoirSample" where
  "ReservoirSample_of_StringVal string_val =
     \<lparr>sample_val = take (min (length (val string_val)) MAX_STRING_SAMPLE_LEN) (val string_val),
      key = - 1\<rparr>"

text \<open>
  The state: the array of \<^verbatim>\<open>NUM_SAMPLES\<close> samples, the number of them in use, the size of
  the source and the random number generator, of a type \<open>'r\<close>. \<^verbatim>\<open>num_samples\<close> never
  leaves the range from 0 to \<^verbatim>\<open>NUM_SAMPLES\<close> and is a natural number here.
\<close>

record ('v, 'r) ReservoirSampleState =
  samples :: "'v ReservoirSample list"
  num_samples :: nat
  source_size :: "64 word"
  rng :: 'r

text \<open>
  \<open>v0\<close> is the default-constructed sample value (for the numeric value types the
  non-null 0, for strings the empty string) and \<open>rng0\<close> the default-constructed generator.
\<close>

definition ReservoirSampleInit :: "'v \<Rightarrow> 'r \<Rightarrow> ('v, 'r) ReservoirSampleState" where
  "ReservoirSampleInit v0 rng0 =
     \<lparr>samples = replicate NUM_SAMPLES (ReservoirSample_default v0),
      num_samples = 0, source_size = 0, rng = rng0\<rparr>"

text \<open>
  \<open>GetNext64\<close> draws from \<^verbatim>\<open>uniform_int<int64_t> dist(0, max)\<close>: it takes the generator
  and \<open>max\<close> and returns the number drawn, which is not negative, and the generator
  after the draw. \<open>mk_sample\<close> is the constructor \<^verbatim>\<open>ReservoirSample<T>(src)\<close>.
\<close>

definition ReservoirSampleUpdate ::
  "('a AnyVal \<Rightarrow> 'v ReservoirSample) \<Rightarrow> ('r \<Rightarrow> 64 word \<Rightarrow> nat \<times> 'r) \<Rightarrow>
   'a AnyVal \<Rightarrow> ('v, 'r) ReservoirSampleState \<Rightarrow> ('v, 'r) ReservoirSampleState" where
  "ReservoirSampleUpdate mk_sample GetNext64 src state =
     (if is_null src then state
      else
        let state1 =
          (if num_samples state < NUM_SAMPLES then
             state\<lparr>samples := (samples state)[num_samples state := mk_sample src],
                   num_samples := num_samples state + 1\<rparr>
           else
             let (r, g) = GetNext64 (rng state) (source_size state)
             in if r < NUM_SAMPLES
                then state\<lparr>samples := (samples state)[r := mk_sample src], rng := g\<rparr>
                else state\<lparr>rng := g\<rparr>)
        in state1\<lparr>source_size := source_size state1 + 1\<rparr>)"















text \<open>
  \<^verbatim>\<open>std::sort\<close> with a comparator, as a sort by insertion: the order it gives to samples
  that the comparator does not tell apart is one of those \<^verbatim>\<open>std::sort\<close> may give.
\<close>

fun insort_by :: "('a \<Rightarrow> 'a \<Rightarrow> bool) \<Rightarrow> 'a \<Rightarrow> 'a list \<Rightarrow> 'a list" where
  "insort_by lt x [] = [x]"
| "insort_by lt x (y # ys) = (if lt x y then x # y # ys else y # insort_by lt x ys)"

definition sort_by :: "('a \<Rightarrow> 'a \<Rightarrow> bool) \<Rightarrow> 'a list \<Rightarrow> 'a list" where
  "sort_by lt xs = foldr (insort_by lt) xs []"

text \<open>\<^verbatim>\<open>SampleValLess\<close>: the template, with \<open>lt\<close> for \<^verbatim>\<open><\<close> of the payload type, and the
  specialisation for strings, which compares the common prefix by \<^verbatim>\<open>memcmp\<close>.\<close>

definition SampleValLess ::
  "('a \<Rightarrow> 'a \<Rightarrow> bool) \<Rightarrow> 'a AnyVal ReservoirSample \<Rightarrow> 'a AnyVal ReservoirSample \<Rightarrow> bool" where
  "SampleValLess lt i j = lt (val (sample_val i)) (val (sample_val j))"

fun memcmp :: "byte list \<Rightarrow> byte list \<Rightarrow> int" where
  "memcmp (x # xs) (y # ys) = (if x < y then - 1 else if y < x then 1 else memcmp xs ys)"
| "memcmp xs ys = 0"

definition SampleValLess_StringVal ::
  "byte list ReservoirSample \<Rightarrow> byte list ReservoirSample \<Rightarrow> bool" where
  "SampleValLess_StringVal i j =
     (let n = min (length (sample_val i)) (length (sample_val j));
          result = memcmp (take n (sample_val i)) (take n (sample_val j))
      in if result = 0 then length (sample_val i) < length (sample_val j) else result < 0)"

text \<open>Writing an integer to a stream: its decimal digits, with a sign when negative.\<close>

fun show_nat :: "nat \<Rightarrow> string" where
  "show_nat n =
     (if n < 10 then [''0123456789'' ! n]
      else show_nat (n div 10) @ [''0123456789'' ! (n mod 10)])"

definition show_int :: "int \<Rightarrow> string" where
  "show_int i = (if i < 0 then CHR ''-'' # show_nat (nat (- i)) else show_nat (nat i))"

text \<open>
  \<^verbatim>\<open>PrintSample\<close> for the signed integer value types (\<^verbatim>\<open>TinyIntVal\<close>, which is cast to
  \<^verbatim>\<open>int32_t\<close>, \<^verbatim>\<open>SmallIntVal\<close>, \<^verbatim>\<open>IntVal\<close>, \<^verbatim>\<open>BigIntVal\<close> and the \<^verbatim>\<open>val16\<close> of a
  \<^verbatim>\<open>DecimalVal\<close>) and for strings.
\<close>

definition PrintSample_int :: "'a::len word AnyVal ReservoirSample \<Rightarrow> byte list" where
  "PrintSample_int v = bytes_of (show_int (sint (val (sample_val v))))"

definition PrintSample_StringVal :: "byte list ReservoirSample \<Rightarrow> byte list" where
  "PrintSample_StringVal v = sample_val v"

text \<open>
  \<^verbatim>\<open>AppxMedianFinalize\<close>: sorts the samples in use and prints the one at index
  \<^verbatim>\<open>num_samples / 2\<close> into a new, non-null \<^verbatim>\<open>StringVal\<close>.
\<close>

definition AppxMedianFinalize ::
  "('v ReservoirSample \<Rightarrow> 'v ReservoirSample \<Rightarrow> bool) \<Rightarrow> ('v ReservoirSample \<Rightarrow> byte list) \<Rightarrow>
   ('v, 'r) ReservoirSampleState \<Rightarrow> error + StringVal" where
  "AppxMedianFinalize sample_lt print src =
     (let sorted_samples =
            sort_by sample_lt (take (num_samples src) (samples src))
              @ drop (num_samples src) (samples src)
      in if length sorted_samples \<le> num_samples src div 2 then Inl Out_of_bounds
         else Inr \<lparr>is_null = False, val = print (sorted_samples ! (num_samples src div 2))\<rparr>)"



section \<open>Streaming variance\<close>

record 'd KnuthVarianceState =
  kv_mean :: 'd
  kv_m2 :: 'd
  kv_count :: "64 word"

definition ComputeKnuthVariance :: "'d fp_ops \<Rightarrow> 'd KnuthVarianceState \<Rightarrow> bool \<Rightarrow> 'd" where
  "ComputeKnuthVariance fp state pop =
     (if kv_count state = 1 then fp_zero fp
      else if pop then fp_div fp (kv_m2 state) (fp_of_int64 fp (kv_count state))
      else fp_div fp (kv_m2 state) (fp_of_int64 fp (kv_count state - 1)))"

definition KnuthVarUpdate ::
  "'d fp_ops \<Rightarrow> ('a \<Rightarrow> 'd) \<Rightarrow> 'a AnyVal \<Rightarrow> 'd KnuthVarianceState \<Rightarrow> 'd KnuthVarianceState" where
  "KnuthVarUpdate fp to_double src state =
     (if is_null src then state
      else
        let temp = fp_of_int64 fp (1 + kv_count state);
            delta = fp_sub fp (to_double (val src)) (kv_mean state);
            r = fp_div fp delta temp
        in \<lparr>kv_mean = fp_add fp (kv_mean state) r,
            kv_m2 = fp_add fp (kv_m2 state)
                      (fp_mul fp (fp_mul fp (fp_of_int64 fp (kv_count state)) delta) r),
            kv_count = fp_to_int64 fp temp\<rparr>)"


text \<open>
  Modelled from the spec: the execution context \<^verbatim>\<open>FunctionContext\<close> is not in this file.
  Its allocator hands out buffers (\<^verbatim>\<open>allocate(n) -> ptr\<close>) and takes them back
  (\<^verbatim>\<open>free(ptr)\<close>). The model keeps the buffers that are live, each with the state it
  holds; a buffer is live from its allocation to its free.
\<close>

record 's FunctionContext =
  mem :: "nat \<Rightarrow> 's option"
  next_ptr :: nat

definition Allocate :: "'s FunctionContext \<Rightarrow> 's \<Rightarrow> nat \<times> 's FunctionContext" where
  "Allocate ctx s =
     (next_ptr ctx, ctx\<lparr>mem := (mem ctx)(next_ptr ctx \<mapsto> s), next_ptr := next_ptr ctx + 1\<rparr>)"

definition Free :: "'s FunctionContext \<Rightarrow> nat \<Rightarrow> 's FunctionContext" where
  "Free ctx p = ctx\<lparr>mem := (mem ctx)(p := None)\<rparr>"

definition live :: "'s FunctionContext \<Rightarrow> nat set" where
  "live ctx = dom (mem ctx)"

text \<open>
  The variance functions with the context: the intermediate \<^verbatim>\<open>StringVal\<close> is a null flag
  and the pointer to the buffer of the state. \<open>ToStringVal\<close> prints a \<^verbatim>\<open>double\<close> into a
  new string.
\<close>

definition KnuthVarInit ::
  "'d fp_ops \<Rightarrow> 'd KnuthVarianceState FunctionContext \<Rightarrow>
   nat AnyVal \<times> 'd KnuthVarianceState FunctionContext" where
  "KnuthVarInit fp ctx =
     (let (p, ctx1) = Allocate ctx \<lparr>kv_mean = fp_zero fp, kv_m2 = fp_zero fp, kv_count = 0\<rparr>
      in (\<lparr>is_null = False, val = p\<rparr>, ctx1))"

definition KnuthVarFinalize ::
  "'d fp_ops \<Rightarrow> 'd KnuthVarianceState FunctionContext \<Rightarrow> nat AnyVal \<Rightarrow>
   error + 'd AnyVal \<times> 'd KnuthVarianceState FunctionContext" where
  "KnuthVarFinalize fp ctx state_sv =
     (case mem ctx (val state_sv) of
        None \<Rightarrow> Inl Out_of_bounds
      | Some state \<Rightarrow>
          if kv_count state = 0 then Inr (\<lparr>is_null = True, val = fp_zero fp\<rparr>, ctx)
          else Inr (\<lparr>is_null = False, val = ComputeKnuthVariance fp state False\<rparr>, ctx))"

definition KnuthVarPopFinalize ::
  "'d fp_ops \<Rightarrow> ('d \<Rightarrow> byte list) \<Rightarrow> 'd KnuthVarianceState FunctionContext \<Rightarrow> nat AnyVal \<Rightarrow>
   error + StringVal \<times> 'd KnuthVarianceState FunctionContext" where
  "KnuthVarPopFinalize fp ToStringVal ctx state_sv =
     (case mem ctx (val state_sv) of
        None \<Rightarrow> Inl Out_of_bounds
      | Some state \<Rightarrow>
          let ctx1 = Free ctx (val state_sv)
          in if kv_count state = 0 then Inr (StringVal_null, ctx1)
             else Inr (\<lparr>is_null = False, val = ToStringVal (ComputeKnuthVariance fp state True)\<rparr>,
                       ctx1))"

section \<open>The states of the examples\<close>

text \<open>
  The two partial states of the string concatenation example: "a" then "b" folded with
  the separator "-", and "c" folded with the separator "+".
\<close>

definition fold_a_b :: StringVal where
  "fold_a_b =
     StringConcatUpdate \<lparr>is_null = False, val = bytes_of ''b''\<rparr>
       \<lparr>is_null = False, val = bytes_of ''-''\<rparr>
       (StringConcatUpdate \<lparr>is_null = False, val = bytes_of ''a''\<rparr>
          \<lparr>is_null = False, val = bytes_of ''-''\<rparr> (InitNullString StringVal_null))"

definition fold_c :: StringVal where
  "fold_c =
     StringConcatUpdate \<lparr>is_null = False, val = bytes_of ''c''\<rparr>
       \<lparr>is_null = False, val = bytes_of ''+''\<rparr> (InitNullString StringVal_null)"




section \<open>Auxiliary facts\<close>

lemma then_do_Inl [simp]: "then_do (Inl e) f = Inl e"
  by (simp add: then_do_def)

lemma then_do_Inr [simp]: "then_do (Inr x) f = f x"
  by (simp add: then_do_def)

lemma then_do_fold_Inl: "fold (\<lambda>i acc. then_do acc (f i)) xs (Inl e) = Inl e"
  by (induction xs) simp_all

subsection \<open>Loops that combine two buffers index by index\<close>

lemma fold_zip_length:
  "length (fold (\<lambda>i d. d[i := g (d ! i) (s ! i)]) [0..<n] d) = length d"
  by (induction n) simp_all

lemma fold_zip_nth:
  "j < length d \<Longrightarrow>
   fold (\<lambda>i d. d[i := g (d ! i) (s ! i)]) [0..<n] d ! j
     = (if j < n then g (d ! j) (s ! j) else d ! j)"
proof (induction n arbitrary: j)
  case 0
  then show ?case by simp
next
  case (Suc n)
  let ?F = "fold (\<lambda>i d. d[i := g (d ! i) (s ! i)]) [0..<n] d"
  have len: "length ?F = length d" by (rule fold_zip_length)
  have step: "fold (\<lambda>i d. d[i := g (d ! i) (s ! i)]) [0..<Suc n] d = ?F[n := g (?F ! n) (s ! n)]"
    by simp
  show ?case
  proof (cases "j = n")
    case True
    have "?F ! n = d ! n" using Suc.IH [of n] Suc.prems True by simp
    then show ?thesis using True Suc.prems len by (simp add: step)
  next
    case False
    then show ?thesis using Suc.IH [of j] Suc.prems by (auto simp add: step)
  qed
qed

lemma fold_zip_map2:
  assumes "length d = n" "length s = n"
  shows "fold (\<lambda>i d. d[i := g (d ! i) (s ! i)]) [0..<n] d = map2 g d s"
  using assms by (intro nth_equalityI) (simp_all add: fold_zip_length fold_zip_nth)

lemma PcMerge_map2:
  assumes "length src = 256" "length dst = 256"
  shows "PcMerge src dst = Inr (map2 (OR) dst src)"
  using assms fold_zip_map2 [of dst 256 src "(OR)"]
  by (simp add: PcMerge_def NUM_PC_BITMAPS_def PC_BITMAP_LENGTH_def)

lemma HllMerge_map2:
  assumes "length src = length dst"
  shows "HllMerge src dst = Inr (map2 max dst src)"
  using assms fold_zip_map2 [of dst "length src" src max]
  by (simp add: HllMerge_def)

lemma map2_commute:
  assumes "\<And>x y. g x y = g y x"
  shows "map2 g xs ys = map2 g ys xs"
proof (induction xs arbitrary: ys)
  case Nil
  then show ?case by simp
next
  case (Cons x xs)
  then show ?case using assms by (cases ys) simp_all
qed

subsection \<open>A bitmap row with all 32 bits set\<close>

lemma all_ones_bit:
  assumes "4 * i + 4 \<le> length bitmap" "int_bitmap_get bitmap i = - 1" "n < 32"
  shows "GetDistinctEstimateBit bitmap i n = Inr True"
proof -
  have b: "bit ((- 1 :: 32 word) AND push_bit n 1) n"
    using assms(3) by (auto simp add: bit_simps)
  have "(- 1 :: 32 word) AND push_bit n 1 \<noteq> 0"
  proof
    assume z: "(- 1 :: 32 word) AND push_bit n 1 = 0"
    from b have "bit (0 :: 32 word) n" unfolding z .
    then show False by simp
  qed
  then show ?thesis
    using assms by (simp add: GetDistinctEstimateBit_def word_gt_0)
qed

lemma all_ones_row_from:
  assumes "4 * i + 4 \<le> length bitmap" "int_bitmap_get bitmap i = - 1"
  shows "n \<le> 32 \<Longrightarrow> row_bit_count_loop bitmap i (32 - n) = Inl Shift_out_of_range"
proof (induction n)
  case 0
  show ?case
    using assms(1) by (subst row_bit_count_loop.simps) (simp add: GetDistinctEstimateBit_def)
next
  case (Suc n)
  have "32 - Suc n < 32" using Suc.prems by simp
  then have g: "GetDistinctEstimateBit bitmap i (32 - Suc n) = Inr True"
    using assms by (simp add: all_ones_bit)
  have e: "32 - Suc n + 1 = 32 - n" using Suc.prems by simp
  show ?case
    apply (subst row_bit_count_loop.simps)
    using Suc g e by (simp add: PC_BITMAP_LENGTH_def)
qed

lemma all_ones_row:
  assumes "4 * i + 4 \<le> length bitmap" "int_bitmap_get bitmap i = - 1"
  shows "row_bit_count_loop bitmap i 0 = Inl Shift_out_of_range"
  using all_ones_row_from [OF assms, of 32] by simp

subsection \<open>The header of a string concatenation state\<close>





subsection \<open>Merging with a fresh state\<close>












subsection \<open>The heap operations keep the samples\<close>
























subsection \<open>Folding updates into a reservoir\<close>

lemma ReservoirSampleUpdate_step:
  assumes "source_size st = word_of_nat (length ys)"
    and "num_samples st = min (length ys) NUM_SAMPLES"
    and "length (samples st) = NUM_SAMPLES"
    and "length ys \<le> NUM_SAMPLES \<longrightarrow> take (length ys) (samples st) = ys"
    and "\<not> is_null x"
  shows "source_size (ReservoirSampleUpdate mk_sample GetNext64 x st) = word_of_nat (Suc (length ys))
    \<and> num_samples (ReservoirSampleUpdate mk_sample GetNext64 x st) = min (Suc (length ys)) NUM_SAMPLES
    \<and> length (samples (ReservoirSampleUpdate mk_sample GetNext64 x st)) = NUM_SAMPLES
    \<and> (Suc (length ys) \<le> NUM_SAMPLES \<longrightarrow>
         take (Suc (length ys)) (samples (ReservoirSampleUpdate mk_sample GetNext64 x st))
           = ys @ [mk_sample x])"
proof (cases "length ys < NUM_SAMPLES")
  case True
  then have "num_samples st = length ys" using assms(2) by simp
  then show ?thesis
    using assms True by (simp add: ReservoirSampleUpdate_def take_Suc_conv_app_nth)
next
  case False
  then have "num_samples st = NUM_SAMPLES" using assms(2) by simp
  then show ?thesis
    using assms False by (simp add: ReservoirSampleUpdate_def Let_def split: prod.splits)
qed

lemma reservoir_invariant:
  "source_size (fold (ReservoirSampleUpdate mk_sample GetNext64) xs (ReservoirSampleInit v0 rng0))
     = word_of_nat (length (filter (\<lambda>x. \<not> is_null x) xs))
   \<and> num_samples (fold (ReservoirSampleUpdate mk_sample GetNext64) xs (ReservoirSampleInit v0 rng0))
     = min (length (filter (\<lambda>x. \<not> is_null x) xs)) NUM_SAMPLES
   \<and> length (samples (fold (ReservoirSampleUpdate mk_sample GetNext64) xs (ReservoirSampleInit v0 rng0)))
     = NUM_SAMPLES
   \<and> (length (filter (\<lambda>x. \<not> is_null x) xs) \<le> NUM_SAMPLES \<longrightarrow>
        take (length (filter (\<lambda>x. \<not> is_null x) xs))
          (samples (fold (ReservoirSampleUpdate mk_sample GetNext64) xs (ReservoirSampleInit v0 rng0)))
        = map mk_sample (filter (\<lambda>x. \<not> is_null x) xs))"
proof (induction xs rule: rev_induct)
  case Nil
  show ?case by (simp add: ReservoirSampleInit_def)
next
  case (snoc x xs)
  let ?st = "fold (ReservoirSampleUpdate mk_sample GetNext64) xs (ReservoirSampleInit v0 rng0)"
  let ?ys = "map mk_sample (filter (\<lambda>x. \<not> is_null x) xs)"
  have st: "fold (ReservoirSampleUpdate mk_sample GetNext64) (xs @ [x]) (ReservoirSampleInit v0 rng0)
      = ReservoirSampleUpdate mk_sample GetNext64 x ?st"
    by simp
  from snoc have ss: "source_size ?st = word_of_nat (length ?ys)"
    and ns: "num_samples ?st = min (length ?ys) NUM_SAMPLES"
    and len: "length (samples ?st) = NUM_SAMPLES"
    and tk: "length ?ys \<le> NUM_SAMPLES \<longrightarrow> take (length ?ys) (samples ?st) = ?ys"
    by simp_all
  show ?case
  proof (cases "is_null x")
    case True
    then have "ReservoirSampleUpdate mk_sample GetNext64 x ?st = ?st"
      by (simp add: ReservoirSampleUpdate_def)
    then show ?thesis
      unfolding st using True snoc by simp
  next
    case False
    show ?thesis
      unfolding st using ReservoirSampleUpdate_step [OF ss ns len tk False, of mk_sample GetNext64] False
      by simp
  qed
qed

lemma sint_of_nat_small:
  assumes "n < 2 ^ 63"
  shows "sint (word_of_nat n :: 64 word) = int n"
proof -
  have "(word_of_nat n :: 64 word) = word_of_int (int n)"
    by simp
  moreover have "signed_take_bit 63 (int n) = int n"
    using assms by (intro signed_take_bit_int_eq_self) simp_all
  ultimately show ?thesis
    by (simp only: sint_sbintrunc') simp
qed

subsection \<open>The example reservoir state\<close>

lemmas reservoir_sizes = NUM_SAMPLES_def NUM_BUCKETS_def NUM_SAMPLES_PER_BUCKET_def





subsection \<open>The example string states\<close>

lemma fold_a_b_state: "fold_a_b = \<lparr>is_null = False, val = [1, 0, 0, 0] @ bytes_of ''-a-b''\<rparr>"
  by (simp add: fold_a_b_def StringConcatUpdate_def InitNullString_def bytes_of_def store_int_def)

lemma fold_c_state: "fold_c = \<lparr>is_null = False, val = [1, 0, 0, 0] @ bytes_of ''+c''\<rparr>"
  by (simp add: fold_c_def StringConcatUpdate_def InitNullString_def bytes_of_def store_int_def)

lemma merge_fold_c_fold_a_b:
  "then_do (StringConcatMerge fold_c fold_a_b) StringConcatFinalize
     = Inr \<lparr>is_null = False, val = bytes_of ''a-b+c''\<rparr>"
  by (simp add: fold_a_b_state fold_c_state bytes_of_def StringConcatMerge_def
      StringConcatFinalize_def header_len_def load_int_def)

section \<open>The claims\<close>

text \<open>
  C1. The claim: for a non-null input of declared precision above 19, that is of 16 bytes,
  \<^verbatim>\<open>DecimalAvgUpdate\<close> adds the full 16-byte value to the sum. The code adds \<^verbatim>\<open>src.val4\<close>
  in the branch for 16 bytes: at precision 38 the value \<open>2^32\<close>, whose low four bytes are
  0, leaves the sum of a fresh state at 0 while the count becomes 1. \<^verbatim>\<open>SumUpdate\<close>, the
  same addition for the decimal sum, adds \<^verbatim>\<open>src.val16\<close> there and yields \<open>2^32\<close>.
\<close>

theorem DecimalAvgUpdate_16_bytes_adds_val4:
  "DecimalAvgUpdate 38 \<lparr>is_null = False, val = 4294967296\<rparr> DecimalAvgInit
     = \<lparr>dec_sum = 0, dec_count = 1\<rparr>
   \<and> SumUpdate 38 \<lparr>is_null = False, val = 4294967296\<rparr> \<lparr>is_null = True, val = 0\<rparr>
     = \<lparr>is_null = False, val = 4294967296\<rparr>"
  by (simp add: DecimalAvgUpdate_def DecimalAvgInit_def GetByteSize_def val4_def SumUpdate_def
      InitZero_def val16_def)

text \<open>
  C2. The claim: folding "a" and "b" with the separator "-", folding "c" with the separator
  "+", merging the second state into the first and finalizing gives "a-b-c". The states
  are the header 1 followed by "-a-b" and the header 1 followed by "+c"; the merge appends
  the source behind its header, separator included, so the result is "a-b+c": the
  separator that came with "c" stays in front of it.
\<close>

theorem StringConcat_merge_is_not_a_b_c:
  "then_do (StringConcatMerge fold_c fold_a_b) StringConcatFinalize
     \<noteq> Inr \<lparr>is_null = False, val = bytes_of ''a-b-c''\<rparr>"
  by (simp add: merge_fold_c_fold_a_b bytes_of_def)

text \<open>
  C2, amended. The two states are the header 1 followed by "-a-b" and the header 1
  followed by "+c"; merging the second into the first gives the header 1 followed by
  "-a-b+c", and finalizing it gives "a-b+c".
\<close>

theorem StringConcat_merge_keeps_source_separators:
  "fold_a_b = \<lparr>is_null = False, val = store_int 1 @ bytes_of ''-a-b''\<rparr>
   \<and> fold_c = \<lparr>is_null = False, val = store_int 1 @ bytes_of ''+c''\<rparr>
   \<and> StringConcatMerge fold_c fold_a_b
       = Inr \<lparr>is_null = False, val = store_int 1 @ bytes_of ''-a-b+c''\<rparr>
   \<and> then_do (StringConcatMerge fold_c fold_a_b) StringConcatFinalize
       = Inr \<lparr>is_null = False, val = bytes_of ''a-b+c''\<rparr>"
  by (simp add: merge_fold_c_fold_a_b)
     (simp add: fold_a_b_state fold_c_state bytes_of_def StringConcatMerge_def header_len_def
        store_int_def)

text \<open>
  C3. The claim: every finalize function frees the buffer of the state, the sample
  variance's \<^verbatim>\<open>KnuthVarFinalize\<close> included. \<^verbatim>\<open>KnuthVarFinalize\<close> never calls \<^verbatim>\<open>Free\<close>:
  after \<^verbatim>\<open>KnuthVarInit\<close> in an empty context and \<^verbatim>\<open>KnuthVarFinalize\<close> the buffer of the
  state is still live, while \<^verbatim>\<open>KnuthVarPopFinalize\<close> on the same state leaves none.
\<close>

theorem KnuthVarFinalize_leaves_buffer_live:
  "(case KnuthVarInit fp \<lparr>mem = Map.empty, next_ptr = 0\<rparr> of
      (sv, ctx1) \<Rightarrow>
        map_sum id (live \<circ> snd) (KnuthVarFinalize fp ctx1 sv) = Inr {val sv}
        \<and> map_sum id (live \<circ> snd) (KnuthVarPopFinalize fp ToStringVal ctx1 sv) = Inr {})"
  by (simp add: KnuthVarInit_def Allocate_def KnuthVarFinalize_def KnuthVarPopFinalize_def
      Free_def live_def)

text \<open>
  C4. The claim: the loop that counts the leading ones of a row never reads the bit at
  column 32, also for a row with all 32 bits set. The loop reads the bit before it tests
  the bound: on the bitmap whose 256 bytes are all \<open>0xFF\<close> the count of row 0 reaches 32
  and the loop then reads column 32, a shift of a 32-bit integer by 32.
\<close>

theorem DistinceEstimateFinalize_full_row_reads_column_32:
  "DistinceEstimateFinalize zero estimate (replicate 256 255) = Inl Shift_out_of_range"
proof -
  have row0: "int_bitmap_get (replicate 256 255) 0 = - 1"
    by (simp add: int_bitmap_get_def load_int_def)
  have r: "row_bit_count_loop (replicate 256 255) 0 0 = Inl Shift_out_of_range"
    by (rule all_ones_row) (simp_all add: row0)
  have u: "[0..<NUM_PC_BITMAPS] = 0 # [1..<NUM_PC_BITMAPS]"
    by (simp add: NUM_PC_BITMAPS_def upt_conv_Cons)
  show ?thesis
    unfolding DistinceEstimateFinalize_def u
    by (simp add: r then_do_fold_Inl NUM_PC_BITMAPS_def PC_BITMAP_LENGTH_def list_all_iff)
qed




text \<open>
  C6. For states of the right size (256 bytes for PC and PCSA, 1024 registers for HLL,
  non-null counts), merging \<open>a\<close> into \<open>b\<close> and merging \<open>b\<close> into \<open>a\<close> give the
  same state: the bytewise OR of the bitmaps, the registerwise maximum, the 64-bit sum.
\<close>

theorem merge_commutative:
  assumes "length a = 256" and "length b = 256"
    and "length h1 = HLL_LEN" and "length h2 = HLL_LEN"
    and "\<not> is_null c1" and "\<not> is_null c2"
  shows "PcMerge a b = PcMerge b a \<and> PcMerge a b = Inr (map2 (OR) b a)
       \<and> HllMerge h1 h2 = HllMerge h2 h1 \<and> HllMerge h1 h2 = Inr (map2 max h2 h1)
       \<and> CountMerge c1 c2 = CountMerge c2 c1
       \<and> val (CountMerge c1 c2) = val c2 + val c1"
proof -
  have pc: "PcMerge a b = Inr (map2 (OR) b a)" "PcMerge b a = Inr (map2 (OR) a b)"
    using assms by (simp_all add: PcMerge_map2)
  have "map2 (OR) b a = map2 (OR) a b"
    by (rule map2_commute) (simp add: or.commute)
  with pc have 1: "PcMerge a b = PcMerge b a" by simp
  have hll: "HllMerge h1 h2 = Inr (map2 max h2 h1)" "HllMerge h2 h1 = Inr (map2 max h1 h2)"
    using assms by (simp_all add: HllMerge_map2)
  have "map2 max h2 h1 = map2 max h1 h2"
    by (rule map2_commute) (simp add: max.commute)
  with hll have 2: "HllMerge h1 h2 = HllMerge h2 h1" by simp
  have 3: "CountMerge c1 c2 = CountMerge c2 c1"
    using assms(5,6) by (simp add: CountMerge_def add.commute)
  show ?thesis
    using 1 2 3 pc(1) hll(1) by (simp add: CountMerge_def)
qed

text \<open>C6 at two bitmaps, two register arrays and two counts.\<close>

theorem merge_commutative_witness:
  "PcMerge (replicate 256 1) (replicate 256 2) = PcMerge (replicate 256 2) (replicate 256 1)
   \<and> PcMerge (replicate 256 1) (replicate 256 2) = Inr (replicate 256 3)
   \<and> HllMerge (replicate 1024 4) (replicate 1024 7) = HllMerge (replicate 1024 7) (replicate 1024 4)
   \<and> HllMerge (replicate 1024 4) (replicate 1024 7) = Inr (replicate 1024 7)
   \<and> CountMerge \<lparr>is_null = False, val = 5\<rparr> \<lparr>is_null = False, val = 9\<rparr>
       = CountMerge \<lparr>is_null = False, val = 9\<rparr> \<lparr>is_null = False, val = 5\<rparr>
   \<and> val (CountMerge \<lparr>is_null = False, val = 5\<rparr> \<lparr>is_null = False, val = 9\<rparr>) = 14"
proof -
  let ?A = "replicate 256 (1 :: byte)" and ?B = "replicate 256 (2 :: byte)"
  let ?G = "replicate 1024 (4 :: byte)" and ?H = "replicate 1024 (7 :: byte)"
  let ?c = "\<lparr>is_null = False, val = 5 :: 64 word\<rparr>"
  let ?d = "\<lparr>is_null = False, val = 9 :: 64 word\<rparr>"
  have inst: "PcMerge ?A ?B = PcMerge ?B ?A \<and> PcMerge ?A ?B = Inr (map2 (OR) ?B ?A)
       \<and> HllMerge ?G ?H = HllMerge ?H ?G \<and> HllMerge ?G ?H = Inr (map2 max ?H ?G)
       \<and> CountMerge ?c ?d = CountMerge ?d ?c
       \<and> val (CountMerge ?c ?d) = val ?d + val ?c"
    by (rule merge_commutative) (simp_all add: HLL_LEN_def)
  have pc: "map2 (OR) ?B ?A = replicate 256 3"
    by simp
  have hll: "map2 max ?H ?G = replicate 1024 7"
    by simp
  have cnt: "val ?d + val ?c = 14"
    by simp
  from inst have i1: "PcMerge ?A ?B = PcMerge ?B ?A"
    and i2: "PcMerge ?A ?B = Inr (map2 (OR) ?B ?A)"
    and i3: "HllMerge ?G ?H = HllMerge ?H ?G"
    and i4: "HllMerge ?G ?H = Inr (map2 max ?H ?G)"
    and i5: "CountMerge ?c ?d = CountMerge ?d ?c"
    and i6: "val (CountMerge ?c ?d) = val ?d + val ?c"
    by blast+
  show ?thesis
    using i1 i2 [unfolded pc] i3 i4 [unfolded hll] i5 i6 [unfolded cnt] by (intro conjI)
qed

text \<open>
  C7. Every update function that takes an input value returns the state it was given when
  the input is null, whatever the state and the other arguments are: the functions of
  Count, the averages, Sum, Min and Max of every value type, the string concatenation,
  PC and PCSA, the reservoir sample, HLL and the variance. A null input is written as any
  value with the null flag set.
\<close>

theorem update_skips_null:
  "CountUpdate (src1\<lparr>is_null := True\<rparr>) cnt = cnt
   \<and> AvgUpdate fp to_double (src2\<lparr>is_null := True\<rparr>) avg = avg
   \<and> TimestampAvgUpdate fp FromTimestampVal (tsrc\<lparr>is_null := True\<rparr>) avg = avg
   \<and> DecimalAvgUpdate precision (dsrc\<lparr>is_null := True\<rparr>) davg = davg
   \<and> Sum add zero (src3\<lparr>is_null := True\<rparr>) sum_dst = sum_dst
   \<and> Sum_int (src4\<lparr>is_null := True\<rparr>) int_dst = int_dst
   \<and> Sum_double fp to_double (src2\<lparr>is_null := True\<rparr>) double_dst = double_dst
   \<and> SumUpdate precision (dsrc\<lparr>is_null := True\<rparr>) dec_dst = dec_dst
   \<and> Min_val lt (src5\<lparr>is_null := True\<rparr>) dst = dst
   \<and> Max_val lt (src5\<lparr>is_null := True\<rparr>) dst = dst
   \<and> Min_StringVal slt (ssrc\<lparr>is_null := True\<rparr>) sdst = sdst
   \<and> Max_StringVal slt (ssrc\<lparr>is_null := True\<rparr>) sdst = sdst
   \<and> Min_DecimalVal precision (dsrc\<lparr>is_null := True\<rparr>) dec_dst = dec_dst
   \<and> Max_DecimalVal precision (dsrc\<lparr>is_null := True\<rparr>) dec_dst = dec_dst
   \<and> Min_TimestampVal tlt (tsrc\<lparr>is_null := True\<rparr>) tdst = tdst
   \<and> Max_TimestampVal tlt (tsrc\<lparr>is_null := True\<rparr>) tdst = tdst
   \<and> StringConcatUpdate (ssrc\<lparr>is_null := True\<rparr>) separator result = result
   \<and> StringConcatUpdate_default (ssrc\<lparr>is_null := True\<rparr>) result = result
   \<and> PcUpdate Hash (src6\<lparr>is_null := True\<rparr>) bitmap = Inr bitmap
   \<and> PcsaUpdate Hash (src6\<lparr>is_null := True\<rparr>) bitmap = Inr bitmap
   \<and> ReservoirSampleUpdate mk_sample GetNext64 (src7\<lparr>is_null := True\<rparr>) state = state
   \<and> HllUpdate Hash64 (src8\<lparr>is_null := True\<rparr>) registers = Inr registers
   \<and> KnuthVarUpdate fp to_double (src2\<lparr>is_null := True\<rparr>) kv = kv"
  by (simp add: CountUpdate_def AvgUpdate_def TimestampAvgUpdate_def DecimalAvgUpdate_def
      Sum_def Sum_int_def Sum_double_def SumUpdate_def Min_val_def Max_val_def
      Min_StringVal_def Max_StringVal_def Min_DecimalVal_def Max_DecimalVal_def
      Min_TimestampVal_def Max_TimestampVal_def StringConcatUpdate_def
      StringConcatUpdate_default_def PcUpdate_def PcsaUpdate_def ReservoirSampleUpdate_def
      HllUpdate_def KnuthVarUpdate_def)

text \<open>
  C8. After any sequence of updates of a freshly initialized reservoir state, whatever
  the random draws are, the 64-bit counter \<^verbatim>\<open>source_size\<close> holds the number of non-null
  inputs (read as a signed number it is that number as long as there are fewer than
  \<open>2^63\<close> of them), \<^verbatim>\<open>num_samples\<close> is the smaller of that number and 20000 and the
  array keeps its 20000 slots. While there are at most 20000 non-null inputs, the slots in
  use hold their samples in the order of arrival. A non-null update of any state with
  fewer than 20000 samples appends: it writes the slot \<^verbatim>\<open>num_samples\<close>, adds 1 to
  \<^verbatim>\<open>num_samples\<close> and to \<^verbatim>\<open>source_size\<close> and leaves the generator alone. A non-null
  update of a state with 20000 samples draws \<open>r\<close> from the generator with the bound
  \<^verbatim>\<open>source_size\<close>, writes slot \<open>r\<close> when \<open>r\<close> is below 20000 and no slot otherwise,
  keeps \<^verbatim>\<open>num_samples\<close> and adds 1 to \<^verbatim>\<open>source_size\<close>.
\<close>

theorem ReservoirSampleUpdate_counts:
  "source_size (fold (ReservoirSampleUpdate mk_sample GetNext64) xs
       (ReservoirSampleInit v0 rng0)) = word_of_nat (length (filter (\<lambda>x. \<not> is_null x) xs))
   \<and> (length (filter (\<lambda>x. \<not> is_null x) xs) < 2 ^ 63 \<longrightarrow>
        sint (source_size (fold (ReservoirSampleUpdate mk_sample GetNext64) xs
       (ReservoirSampleInit v0 rng0))) = int (length (filter (\<lambda>x. \<not> is_null x) xs)))
   \<and> num_samples (fold (ReservoirSampleUpdate mk_sample GetNext64) xs
       (ReservoirSampleInit v0 rng0)) = min (length (filter (\<lambda>x. \<not> is_null x) xs)) 20000
   \<and> length (samples (fold (ReservoirSampleUpdate mk_sample GetNext64) xs
       (ReservoirSampleInit v0 rng0))) = 20000
   \<and> (length (filter (\<lambda>x. \<not> is_null x) xs) \<le> 20000 \<longrightarrow>
        take (length (filter (\<lambda>x. \<not> is_null x) xs)) (samples (fold (ReservoirSampleUpdate mk_sample GetNext64) xs
       (ReservoirSampleInit v0 rng0)))
          = map mk_sample (filter (\<lambda>x. \<not> is_null x) xs))
   \<and> (\<not> is_null x \<and> num_samples st < 20000 \<longrightarrow>
        ReservoirSampleUpdate mk_sample GetNext64 x st
          = st\<lparr>samples := (samples st)[num_samples st := mk_sample x],
                num_samples := num_samples st + 1,
                source_size := source_size st + 1\<rparr>)
   \<and> (\<not> is_null x \<and> 20000 \<le> num_samples st \<longrightarrow>
        ReservoirSampleUpdate mk_sample GetNext64 x st
          = (if fst (GetNext64 (rng st) (source_size st)) < 20000
             then st\<lparr>samples := (samples st)
                       [fst (GetNext64 (rng st) (source_size st)) := mk_sample x],
                     rng := snd (GetNext64 (rng st) (source_size st)),
                     source_size := source_size st + 1\<rparr>
             else st\<lparr>rng := snd (GetNext64 (rng st) (source_size st)),
                     source_size := source_size st + 1\<rparr>))"
proof -
  let ?n = "length (filter (\<lambda>x. \<not> is_null x) xs)"
  have "sint (word_of_nat ?n :: 64 word) = int ?n" if "?n < 2 ^ 63"
    using that by (rule sint_of_nat_small)
  then have counts: "source_size (fold (ReservoirSampleUpdate mk_sample GetNext64) xs
       (ReservoirSampleInit v0 rng0)) = word_of_nat ?n
      \<and> (?n < 2 ^ 63 \<longrightarrow> sint (source_size (fold (ReservoirSampleUpdate mk_sample GetNext64) xs
       (ReservoirSampleInit v0 rng0))) = int ?n)
      \<and> num_samples (fold (ReservoirSampleUpdate mk_sample GetNext64) xs
       (ReservoirSampleInit v0 rng0)) = min ?n 20000
      \<and> length (samples (fold (ReservoirSampleUpdate mk_sample GetNext64) xs
       (ReservoirSampleInit v0 rng0))) = 20000
      \<and> (?n \<le> 20000 \<longrightarrow> take ?n (samples (fold (ReservoirSampleUpdate mk_sample GetNext64) xs
       (ReservoirSampleInit v0 rng0))) = map mk_sample (filter (\<lambda>x. \<not> is_null x) xs))"
    using reservoir_invariant [of mk_sample GetNext64 xs v0 rng0]
    by (simp add: reservoir_sizes)
  have append: "ReservoirSampleUpdate mk_sample GetNext64 x st
          = st\<lparr>samples := (samples st)[num_samples st := mk_sample x],
                num_samples := num_samples st + 1,
                source_size := source_size st + 1\<rparr>"
    if "\<not> is_null x \<and> num_samples st < 20000"
    using that by (simp add: ReservoirSampleUpdate_def reservoir_sizes)
  have replace: "ReservoirSampleUpdate mk_sample GetNext64 x st
          = (if fst (GetNext64 (rng st) (source_size st)) < 20000
             then st\<lparr>samples := (samples st)
                       [fst (GetNext64 (rng st) (source_size st)) := mk_sample x],
                     rng := snd (GetNext64 (rng st) (source_size st)),
                     source_size := source_size st + 1\<rparr>
             else st\<lparr>rng := snd (GetNext64 (rng st) (source_size st)),
                     source_size := source_size st + 1\<rparr>)"
    if "\<not> is_null x \<and> 20000 \<le> num_samples st"
    using that
    by (simp add: ReservoirSampleUpdate_def reservoir_sizes Let_def split_beta)
  from counts append replace show ?thesis
    by blast
qed

text \<open>
  C8 at the inputs 5, null, 7 of a 32-bit integer type followed by the update with 9,
  which appends, and at 20000 inputs 5 followed by the update with 9, with a generator
  that draws the remainder of its bound by 7, so that the bound 20000 gives 1 and slot 1
  is replaced, and with a generator that draws its bound, 20000, so that no slot is
  replaced.
\<close>

theorem ReservoirSampleUpdate_counts_witness:
  "source_size (fold (ReservoirSampleUpdate ReservoirSample_of (\<lambda>g m. (unat m mod 7, g)))
      [\<lparr>is_null = False, val = 5 :: 32 word\<rparr>, \<lparr>is_null = True, val = 0\<rparr>,
       \<lparr>is_null = False, val = 7\<rparr>] (ReservoirSampleInit \<lparr>is_null = False, val = 0\<rparr> ())) = 2
   \<and> sint (source_size (fold (ReservoirSampleUpdate ReservoirSample_of (\<lambda>g m. (unat m mod 7, g)))
      [\<lparr>is_null = False, val = 5 :: 32 word\<rparr>, \<lparr>is_null = True, val = 0\<rparr>,
       \<lparr>is_null = False, val = 7\<rparr>] (ReservoirSampleInit \<lparr>is_null = False, val = 0\<rparr> ()))) = 2
   \<and> num_samples (fold (ReservoirSampleUpdate ReservoirSample_of (\<lambda>g m. (unat m mod 7, g)))
      [\<lparr>is_null = False, val = 5 :: 32 word\<rparr>, \<lparr>is_null = True, val = 0\<rparr>,
       \<lparr>is_null = False, val = 7\<rparr>] (ReservoirSampleInit \<lparr>is_null = False, val = 0\<rparr> ())) = 2
   \<and> take 2 (samples (fold (ReservoirSampleUpdate ReservoirSample_of (\<lambda>g m. (unat m mod 7, g)))
      [\<lparr>is_null = False, val = 5 :: 32 word\<rparr>, \<lparr>is_null = True, val = 0\<rparr>,
       \<lparr>is_null = False, val = 7\<rparr>] (ReservoirSampleInit \<lparr>is_null = False, val = 0\<rparr> ())))
     = [\<lparr>sample_val = \<lparr>is_null = False, val = 5\<rparr>, key = - 1\<rparr>,
        \<lparr>sample_val = \<lparr>is_null = False, val = 7\<rparr>, key = - 1\<rparr>]
   \<and> ReservoirSampleUpdate ReservoirSample_of (\<lambda>g m. (unat m mod 7, g))
        \<lparr>is_null = False, val = 9\<rparr>
        (fold (ReservoirSampleUpdate ReservoirSample_of (\<lambda>g m. (unat m mod 7, g)))
           [\<lparr>is_null = False, val = 5 :: 32 word\<rparr>, \<lparr>is_null = True, val = 0\<rparr>,
       \<lparr>is_null = False, val = 7\<rparr>] (ReservoirSampleInit \<lparr>is_null = False, val = 0\<rparr> ()))
     = (fold (ReservoirSampleUpdate ReservoirSample_of (\<lambda>g m. (unat m mod 7, g)))
           [\<lparr>is_null = False, val = 5 :: 32 word\<rparr>, \<lparr>is_null = True, val = 0\<rparr>,
       \<lparr>is_null = False, val = 7\<rparr>] (ReservoirSampleInit \<lparr>is_null = False, val = 0\<rparr> ()))
        \<lparr>samples := (samples (fold (ReservoirSampleUpdate ReservoirSample_of
              (\<lambda>g m. (unat m mod 7, g))) [\<lparr>is_null = False, val = 5 :: 32 word\<rparr>, \<lparr>is_null = True, val = 0\<rparr>,
       \<lparr>is_null = False, val = 7\<rparr>] (ReservoirSampleInit \<lparr>is_null = False, val = 0\<rparr> ())))
            [2 := \<lparr>sample_val = \<lparr>is_null = False, val = 9\<rparr>, key = - 1\<rparr>],
         num_samples := 3, source_size := 3\<rparr>
   \<and> num_samples (fold (ReservoirSampleUpdate ReservoirSample_of (\<lambda>g m. (unat m mod 7, g)))
      (replicate 20000 \<lparr>is_null = False, val = 5 :: 32 word\<rparr>) (ReservoirSampleInit \<lparr>is_null = False, val = 0\<rparr> ())) = 20000
   \<and> source_size (fold (ReservoirSampleUpdate ReservoirSample_of (\<lambda>g m. (unat m mod 7, g)))
      (replicate 20000 \<lparr>is_null = False, val = 5 :: 32 word\<rparr>) (ReservoirSampleInit \<lparr>is_null = False, val = 0\<rparr> ())) = 20000
   \<and> ReservoirSampleUpdate ReservoirSample_of (\<lambda>g m. (unat m mod 7, g))
        \<lparr>is_null = False, val = 9\<rparr>
        (fold (ReservoirSampleUpdate ReservoirSample_of (\<lambda>g m. (unat m mod 7, g)))
           (replicate 20000 \<lparr>is_null = False, val = 5 :: 32 word\<rparr>) (ReservoirSampleInit \<lparr>is_null = False, val = 0\<rparr> ()))
     = (fold (ReservoirSampleUpdate ReservoirSample_of (\<lambda>g m. (unat m mod 7, g)))
           (replicate 20000 \<lparr>is_null = False, val = 5 :: 32 word\<rparr>) (ReservoirSampleInit \<lparr>is_null = False, val = 0\<rparr> ()))
        \<lparr>samples := (samples (fold (ReservoirSampleUpdate ReservoirSample_of
              (\<lambda>g m. (unat m mod 7, g))) (replicate 20000 \<lparr>is_null = False, val = 5 :: 32 word\<rparr>) (ReservoirSampleInit \<lparr>is_null = False, val = 0\<rparr> ())))
            [1 := \<lparr>sample_val = \<lparr>is_null = False, val = 9\<rparr>, key = - 1\<rparr>],
         rng := (), source_size := 20001\<rparr>
   \<and> ReservoirSampleUpdate ReservoirSample_of (\<lambda>g m. (unat m, g))
        \<lparr>is_null = False, val = 9\<rparr>
        (fold (ReservoirSampleUpdate ReservoirSample_of (\<lambda>g m. (unat m, g)))
           (replicate 20000 \<lparr>is_null = False, val = 5 :: 32 word\<rparr>) (ReservoirSampleInit \<lparr>is_null = False, val = 0\<rparr> ()))
     = (fold (ReservoirSampleUpdate ReservoirSample_of (\<lambda>g m. (unat m, g)))
           (replicate 20000 \<lparr>is_null = False, val = 5 :: 32 word\<rparr>) (ReservoirSampleInit \<lparr>is_null = False, val = 0\<rparr> ()))
        \<lparr>rng := (), source_size := 20001\<rparr>"
proof -
  let ?xs = "[\<lparr>is_null = False, val = 5 :: 32 word\<rparr>, \<lparr>is_null = True, val = 0\<rparr>,
       \<lparr>is_null = False, val = 7\<rparr>]"
  let ?ys = "(replicate 20000 \<lparr>is_null = False, val = 5 :: 32 word\<rparr>)"
  let ?gen = "\<lambda>(g :: unit) (m :: 64 word). (unat m mod 7, g)"
  let ?v0 = "\<lparr>is_null = False, val = 0 :: 32 word\<rparr>"
  let ?x = "\<lparr>is_null = False, val = 9 :: 32 word\<rparr>"
  let ?s3 = "fold (ReservoirSampleUpdate ReservoirSample_of ?gen) ?xs (ReservoirSampleInit ?v0 ())"
  let ?sf = "fold (ReservoirSampleUpdate ReservoirSample_of ?gen) ?ys (ReservoirSampleInit ?v0 ())"
  have len3: "length (filter (\<lambda>x. \<not> is_null x) ?xs) = 2"
    by simp
  have lenf: "length (filter (\<lambda>x. \<not> is_null x) ?ys) = 20000"
    by simp
  note t3 = ReservoirSampleUpdate_counts [where xs = ?xs and mk_sample = ReservoirSample_of
      and ?GetNext64.0 = ?gen and ?v0.0 = ?v0 and ?rng0.0 = "()" and x = ?x and st = ?s3,
      unfolded len3]
  note tf = ReservoirSampleUpdate_counts [where xs = ?ys and mk_sample = ReservoirSample_of
      and ?GetNext64.0 = ?gen and ?v0.0 = ?v0 and ?rng0.0 = "()" and x = ?x and st = ?sf,
      unfolded lenf]
  have m: "unat (20000 :: 64 word) mod 7 = 1"
    by simp
  from t3 have a: "source_size ?s3 = 2" "sint (source_size ?s3) = 2" "num_samples ?s3 = 2"
    "take 2 (samples ?s3) = [\<lparr>sample_val = \<lparr>is_null = False, val = 5\<rparr>, key = - 1\<rparr>,
        \<lparr>sample_val = \<lparr>is_null = False, val = 7\<rparr>, key = - 1\<rparr>]"
    by (simp_all add: ReservoirSample_of_def)
  from t3 a(1,3) have b: "ReservoirSampleUpdate ReservoirSample_of ?gen ?x ?s3
     = ?s3\<lparr>samples := (samples ?s3)[2 := \<lparr>sample_val = \<lparr>is_null = False, val = 9\<rparr>, key = - 1\<rparr>],
         num_samples := 3, source_size := 3\<rparr>"
    by (simp add: ReservoirSample_of_def)
  from tf have c: "num_samples ?sf = 20000" "source_size ?sf = 20000"
    by simp_all
  from tf c m have d: "ReservoirSampleUpdate ReservoirSample_of ?gen ?x ?sf
     = ?sf\<lparr>samples := (samples ?sf)[1 := \<lparr>sample_val = \<lparr>is_null = False, val = 9\<rparr>, key = - 1\<rparr>],
         rng := (), source_size := 20001\<rparr>"
    by (simp add: ReservoirSample_of_def)
  let ?gen2 = "\<lambda>(g :: unit) (m :: 64 word). (unat m, g)"
  let ?sg = "fold (ReservoirSampleUpdate ReservoirSample_of ?gen2) ?ys (ReservoirSampleInit ?v0 ())"
  note tg = ReservoirSampleUpdate_counts [where xs = ?ys and mk_sample = ReservoirSample_of
      and ?GetNext64.0 = ?gen2 and ?v0.0 = ?v0 and ?rng0.0 = "()" and x = ?x and st = ?sg,
      unfolded lenf]
  from tg have e: "num_samples ?sg = 20000" "source_size ?sg = 20000"
    by simp_all
  from tg e have f: "ReservoirSampleUpdate ReservoirSample_of ?gen2 ?x ?sg
     = ?sg\<lparr>rng := (), source_size := 20001\<rparr>"
    by simp
  from a b c d f show ?thesis
    by (intro conjI)
qed

text \<open>
  C9. The claim: in \<^verbatim>\<open>PcsaUpdate\<close> the argument of \<^verbatim>\<open>__builtin_ctz\<close>, the hash divided by
  64, is not 0 when the hash is not 0. For every non-null input whose hash is one of
  1, ..., 63 the quotient is 0 and the test \<^verbatim>\<open>hash_value == 0\<close> does not apply: the
  bit index is the undefined result of \<^verbatim>\<open>__builtin_ctz(0)\<close>.
\<close>

theorem PcsaUpdate_small_hash_ctz_of_zero:
  assumes "\<not> is_null input" and "Hash input 0 \<noteq> 0" and "Hash input 0 < 64"
  shows "PcsaUpdate Hash input dst = Inl Ctz_undefined"
proof -
  have "Hash input 0 div 64 = 0"
    using assms(3) by (simp add: div_word_less)
  then show ?thesis
    using assms(1,2) by (simp add: PcsaUpdate_def NUM_PC_BITMAPS_def builtin_ctz_def Let_def)
qed

text \<open>C9 at the input 1 of a 32-bit integer type, for a hash that returns the value itself.\<close>

theorem PcsaUpdate_small_hash_ctz_of_zero_witness:
  "PcsaUpdate (\<lambda>v seed. val v) \<lparr>is_null = False, val = 1\<rparr> PcInit = Inl Ctz_undefined"
  using PcsaUpdate_small_hash_ctz_of_zero
    [of "\<lparr>is_null = False, val = 1\<rparr>" "\<lambda>v seed. val v" PcInit]
  by simp

text \<open>
  C10. \<^verbatim>\<open>AppxMedianFinalize\<close> on a freshly initialized state, with no sample, does not
  return null: it prints the default-constructed sample at index 0, which gives the
  string "0" for the integer value types and the empty string for strings.
\<close>

theorem AppxMedianFinalize_of_empty_state:
  "AppxMedianFinalize (SampleValLess lt) PrintSample_int
     (ReservoirSampleInit \<lparr>is_null = False, val = 0\<rparr> rng0)
     = Inr \<lparr>is_null = False, val = bytes_of ''0''\<rparr>
   \<and> AppxMedianFinalize SampleValLess_StringVal PrintSample_StringVal
       (ReservoirSampleInit [] rng1)
     = Inr \<lparr>is_null = False, val = []\<rparr>"
  by (simp add: AppxMedianFinalize_def ReservoirSampleInit_def NUM_SAMPLES_def NUM_BUCKETS_def
      NUM_SAMPLES_PER_BUCKET_def sort_by_def ReservoirSample_default_def PrintSample_int_def
      PrintSample_StringVal_def show_int_def bytes_of_def)

end
